theory Spec2Isabelle
  imports Main "HOL-Library.AList"
begin

section \<open>Data model\<close>

text \<open>
  Wall-clock instants are counted in microseconds (the resolution of Python's
  \<^verbatim>\<open>datetime\<close>). \<^verbatim>\<open>datetime.now()\<close> is naive (no time zone); a
  timestamp read back from a file may carry a UTC offset, and Python refuses to
  subtract an aware datetime from a naive one.
\<close>

type_synonym time = int

datatype datetime = Naive time | Aware time

text \<open>
  JSON documents, as \<^verbatim>\<open>json.load\<close> and \<^verbatim>\<open>response.json()\<close> produce them.
  An object is the Python dictionary in insertion order, each key once.
\<close>

datatype json =
    JNull
  | JBool bool
  | JNum int
  | JStr string
  | JArr "json list"
  | JObj "(string \<times> json) list"

text \<open>The Python exceptions that the cache code can meet.\<close>

datatype py_exc =
    JSONDecodeError
  | KeyError
  | ValueError
  | TypeError
  | OverflowError
  | PermissionError
  | FileNotFoundError
  | InvalidURL

text \<open>
  What a file of the cache directory holds: text that is a JSON document, text
  that is not, or a file that cannot be opened for reading.
\<close>

datatype file_state = Document json | Malformed string | Unreadable

text \<open>
  The cache directory (file name, content), the names that cannot be unlinked,
  what was printed, and the URLs requested from the provider. The directory
  holds files under names that the file system accepts; what the file system
  does with a name it refuses is not part of the model.
\<close>

record world =
  files :: "(string \<times> file_state) list"
  undeletable :: "string set"
  stdout :: "string list"
  sent :: "string list"

text \<open>
  \<^verbatim>\<open>datetime.isoformat\<close> and \<^verbatim>\<open>datetime.fromisoformat\<close> belong to the
  Python library, not to this repository: they are parameters of the model.
  \<open>fromisoformat\<close> gives \<open>None\<close> where Python raises \<^verbatim>\<open>ValueError\<close>.
\<close>

record datetime_lib =
  isoformat :: "time \<Rightarrow> string"
  fromisoformat :: "string \<Rightarrow> datetime option"

record CacheManager =
  cache_dir :: string
  expiry_seconds :: int

text \<open>The dictionary that \<^verbatim>\<open>get\<close> and \<^verbatim>\<open>_fetch_data\<close> return.\<close>

record fetch_result =
  data :: json
  cached :: bool
  cached_at :: "datetime option"

section \<open>CacheManager\<close>

text \<open>
  \<^verbatim>\<open>CacheManager.__init__\<close>: \<^verbatim>\<open>x or default\<close> takes the default when the
  argument is \<^verbatim>\<open>None\<close> and also when it is falsy (an expiry of 0).
\<close>

definition CacheManager_init ::
  "string \<Rightarrow> int \<Rightarrow> string option \<Rightarrow> int option \<Rightarrow> CacheManager" where
  "CacheManager_init settings_cache_path settings_expiry dir expiry =
     \<lparr> cache_dir = (case dir of None \<Rightarrow> settings_cache_path | Some d \<Rightarrow> d),
       expiry_seconds =
         (case expiry of None \<Rightarrow> settings_expiry
          | Some e \<Rightarrow> if e = 0 then settings_expiry else e) \<rparr>"

text \<open>\<^verbatim>\<open>str.replace\<close> with one-character arguments.\<close>

definition replace_char :: "char \<Rightarrow> char \<Rightarrow> string \<Rightarrow> string" where
  "replace_char old new s = map (\<lambda>c. if c = old then new else c) s"

definition safe_key :: "string \<Rightarrow> string" where
  "safe_key key =
     replace_char (CHR ''&'') (CHR ''_'')
       (replace_char (CHR ''?'') (CHR ''_'')
         (replace_char (CHR '':'') (CHR ''_'')
           (replace_char (CHR ''/'') (CHR ''_'') key)))"

text \<open>
  \<^verbatim>\<open>_get_cache_file_path\<close>; the file name inside the cache directory
  identifies the file, the directory being fixed.
\<close>

definition get_cache_file_path :: "string \<Rightarrow> string" where
  "get_cache_file_path key = safe_key key @ ''.json''"

text \<open>
  \<^verbatim>\<open>timedelta(seconds=n)\<close>, in microseconds. A \<^verbatim>\<open>timedelta\<close> holds at most
  999999999 days in either direction; beyond that the constructor raises
  \<^verbatim>\<open>OverflowError\<close>.
\<close>

definition timedelta_seconds :: "int \<Rightarrow> py_exc + int" where
  "timedelta_seconds n =
     (if - 86399999913600 \<le> n \<and> n \<le> 86399999999999 then Inr (n * 1000000)
      else Inl OverflowError)"

text \<open>\<^verbatim>\<open>datetime.now() - cached_at\<close>.\<close>

definition age :: "time \<Rightarrow> datetime \<Rightarrow> py_exc + int" where
  "age now d = (case d of Naive t \<Rightarrow> Inr (now - t) | Aware t \<Rightarrow> Inl TypeError)"

text \<open>\<^verbatim>\<open>cache_data[name]\<close> on whatever \<^verbatim>\<open>json.load\<close> returned.\<close>

definition subscript :: "json \<Rightarrow> string \<Rightarrow> py_exc + json" where
  "subscript j name =
     (case j of
        JObj kvs \<Rightarrow> (case map_of kvs name of None \<Rightarrow> Inl KeyError | Some v \<Rightarrow> Inr v)
      | _ \<Rightarrow> Inl TypeError)"

text \<open>\<^verbatim>\<open>datetime.fromisoformat(v)\<close> on a JSON value.\<close>

definition parse_cached_at :: "datetime_lib \<Rightarrow> json \<Rightarrow> py_exc + datetime" where
  "parse_cached_at lib v =
     (case v of
        JStr s \<Rightarrow> (case fromisoformat lib s of None \<Rightarrow> Inl ValueError | Some d \<Rightarrow> Inr d)
      | _ \<Rightarrow> Inl TypeError)"

text \<open>\<^verbatim>\<open>with open(cache_file, 'r') as f: cache_data = json.load(f)\<close>.\<close>

definition json_load :: "file_state \<Rightarrow> py_exc + json" where
  "json_load st =
     (case st of
        Unreadable \<Rightarrow> Inl PermissionError
      | Malformed txt \<Rightarrow> Inl JSONDecodeError
      | Document j \<Rightarrow> Inr j)"

text \<open>\<^verbatim>\<open>Path.unlink(missing_ok)\<close>.\<close>

definition unlink :: "bool \<Rightarrow> string \<Rightarrow> world \<Rightarrow> py_exc + world" where
  "unlink missing_ok path w =
     (case map_of (files w) path of
        None \<Rightarrow> if missing_ok then Inr w else Inl FileNotFoundError
      | Some st \<Rightarrow>
          if path \<in> undeletable w then Inl PermissionError
          else Inr (w\<lparr>files := AList.delete path (files w)\<rparr>))"

text \<open>
  The lines shared by \<^verbatim>\<open>get\<close> and \<^verbatim>\<open>clear_expired\<close>: load the file, read
  and parse \<^verbatim>\<open>cached_at\<close>, compare the age with the time to live. Python
  evaluates the subtraction before it builds the \<^verbatim>\<open>timedelta\<close>. The result
  is the loaded document, the timestamp and whether the entry has expired.
\<close>

definition load_entry ::
  "datetime_lib \<Rightarrow> CacheManager \<Rightarrow> time \<Rightarrow> file_state \<Rightarrow> py_exc + (json \<times> datetime \<times> bool)" where
  "load_entry lib cm now st =
     (case json_load st of
        Inl e \<Rightarrow> Inl e
      | Inr cache_data \<Rightarrow>
          (case subscript cache_data ''cached_at'' of
             Inl e \<Rightarrow> Inl e
           | Inr v \<Rightarrow>
               (case parse_cached_at lib v of
                  Inl e \<Rightarrow> Inl e
                | Inr d \<Rightarrow>
                    (case age now d of
                       Inl e \<Rightarrow> Inl e
                     | Inr a \<Rightarrow>
                         (case timedelta_seconds (expiry_seconds cm) of
                            Inl e \<Rightarrow> Inl e
                          | Inr ttl \<Rightarrow> Inr (cache_data, d, a > ttl))))))"

text \<open>
  The \<^verbatim>\<open>except (json.JSONDecodeError, KeyError, ValueError)\<close> clause of
  \<^verbatim>\<open>get\<close>: these three are answered by removing the file and returning
  \<^verbatim>\<open>None\<close>; every other exception leaves \<^verbatim>\<open>get\<close>.
\<close>

definition get_handler ::
  "string \<Rightarrow> py_exc \<Rightarrow> world \<Rightarrow> (py_exc + fetch_result option) \<times> world" where
  "get_handler path e w =
     (if e = JSONDecodeError \<or> e = KeyError \<or> e = ValueError then
        (case unlink True path w of
           Inl e' \<Rightarrow> (Inl e', w)
         | Inr w' \<Rightarrow> (Inr None, w'))
      else (Inl e, w))"

text \<open>\<^verbatim>\<open>CacheManager.get\<close>, called when the clock reads \<open>now\<close>.\<close>

definition get ::
  "datetime_lib \<Rightarrow> CacheManager \<Rightarrow> time \<Rightarrow> string \<Rightarrow> world
     \<Rightarrow> (py_exc + fetch_result option) \<times> world" where
  "get lib cm now key w =
     (let path = get_cache_file_path key in
      case map_of (files w) path of
        None \<Rightarrow> (Inr None, w)
      | Some st \<Rightarrow>
          (case load_entry lib cm now st of
             Inl e \<Rightarrow> get_handler path e w
           | Inr (cache_data, d, expired) \<Rightarrow>
               if expired then
                 (case unlink False path w of
                    Inl e \<Rightarrow> get_handler path e w
                  | Inr w' \<Rightarrow> (Inr None, w'))
               else
                 (case subscript cache_data ''data'' of
                    Inl e \<Rightarrow> get_handler path e w
                  | Inr v \<Rightarrow>
                      (Inr (Some \<lparr> data = v, cached = True, cached_at = Some d \<rparr>), w))))"

text \<open>
  What happens when \<^verbatim>\<open>set\<close> opens the file for writing and dumps the JSON
  text: it works, \<^verbatim>\<open>open\<close> raises (message), or \<^verbatim>\<open>json.dump\<close> raises
  (message) after the file was truncated and part of the text written.
\<close>

datatype write_outcome = Written | Open_fails string | Dump_fails string string

text \<open>
  \<^verbatim>\<open>CacheManager.set\<close>, called when the clock reads \<open>now\<close> (the name
  \<open>set\<close> is taken in HOL). Every exception of the \<^verbatim>\<open>try\<close> block is caught
  by \<^verbatim>\<open>except Exception\<close>, so the function always returns.
\<close>

definition set_entry ::
  "datetime_lib \<Rightarrow> time \<Rightarrow> write_outcome \<Rightarrow> string \<Rightarrow> json \<Rightarrow> world \<Rightarrow> world" where
  "set_entry lib now disk key payload w =
     (let path = get_cache_file_path key;
          cache_data = JObj [(''data'', payload), (''cached_at'', JStr (isoformat lib now))]
      in case disk of
           Written \<Rightarrow> w\<lparr>files := AList.update path (Document cache_data) (files w)\<rparr>
         | Open_fails msg \<Rightarrow>
             w\<lparr>stdout := stdout w @ [''Warning: Failed to cache data: '' @ msg]\<rparr>
         | Dump_fails msg partial \<Rightarrow>
             w\<lparr>files := AList.update path (Malformed partial) (files w),
               stdout := stdout w @ [''Warning: Failed to cache data: '' @ msg]\<rparr>)"

text \<open>\<^verbatim>\<open>self.cache_dir.glob("*.json")\<close>: the names, each once.\<close>

definition glob_json :: "world \<Rightarrow> string list" where
  "glob_json w =
     remdups (filter (\<lambda>n. length n \<ge> 5 \<and> drop (length n - 5) n = ''.json'') (map fst (files w)))"



text \<open>
  The loop of \<^verbatim>\<open>clear_expired\<close>. Whatever the \<^verbatim>\<open>try\<close> block raises leads
  to \<^verbatim>\<open>unlink(missing_ok=True)\<close> and is counted; an exception of that second
  \<^verbatim>\<open>unlink\<close> leaves the function.
\<close>

definition expired_handler :: "string \<Rightarrow> world \<Rightarrow> py_exc + world" where
  "expired_handler cache_file w = unlink True cache_file w"

fun clear_expired_loop ::
  "datetime_lib \<Rightarrow> CacheManager \<Rightarrow> time \<Rightarrow> string list \<Rightarrow> nat \<Rightarrow> world
     \<Rightarrow> (py_exc + nat) \<times> world" where
  "clear_expired_loop lib cm now [] count w = (Inr count, w)"
| "clear_expired_loop lib cm now (cache_file # rest) count w =
     (case (case map_of (files w) cache_file of
              None \<Rightarrow> Inl FileNotFoundError
            | Some st \<Rightarrow> load_entry lib cm now st) of
        Inl e \<Rightarrow>
          (case expired_handler cache_file w of
             Inl e' \<Rightarrow> (Inl e', w)
           | Inr w' \<Rightarrow> clear_expired_loop lib cm now rest (count + 1) w')
      | Inr (cache_data, d, expired) \<Rightarrow>
          if expired then
            (case unlink False cache_file w of
               Inl e \<Rightarrow>
                 (case expired_handler cache_file w of
                    Inl e' \<Rightarrow> (Inl e', w)
                  | Inr w' \<Rightarrow> clear_expired_loop lib cm now rest (count + 1) w')
             | Inr w' \<Rightarrow> clear_expired_loop lib cm now rest (count + 1) w')
          else clear_expired_loop lib cm now rest count w)"

definition clear_expired ::
  "datetime_lib \<Rightarrow> CacheManager \<Rightarrow> time \<Rightarrow> world \<Rightarrow> (py_exc + nat) \<times> world" where
  "clear_expired lib cm now w = clear_expired_loop lib cm now (glob_json w) 0 w"

section \<open>WeatherService\<close>

text \<open>Python's \<^verbatim>\<open>str\<close> of an integer, as the f-strings apply it.\<close>

definition digit_char :: "nat \<Rightarrow> char" where
  "digit_char d = ''0123456789'' ! d"

fun str_nat :: "nat \<Rightarrow> string" where
  "str_nat n =
     (if n < 10 then [digit_char n]
      else str_nat (n div 10) @ [digit_char (n mod 10)])"

declare str_nat.simps [simp del]

definition str_int :: "int \<Rightarrow> string" where
  "str_int i = (if i < 0 then ''-'' @ str_nat (nat (- i)) else str_nat (nat i))"

text \<open>The values of the request parameters: a city name, a city id, a count.\<close>

datatype pyval = PStr string | PInt int

definition str_pyval :: "pyval \<Rightarrow> string" where
  "str_pyval v = (case v of PStr s \<Rightarrow> s | PInt i \<Rightarrow> str_int i)"

text \<open>
  A Python dictionary keeps insertion order: an association list, where
  assigning to a present key keeps its place and a new key is appended.
\<close>

type_synonym params = "(string \<times> pyval) list"

definition dict_get :: "params \<Rightarrow> string \<Rightarrow> pyval \<Rightarrow> pyval" where
  "dict_get d k dflt = (case map_of d k of None \<Rightarrow> dflt | Some v \<Rightarrow> v)"

fun join :: "string \<Rightarrow> string list \<Rightarrow> string" where
  "join sep [] = []"
| "join sep [x] = x"
| "join sep (x # y # ys) = x @ sep @ join sep (y # ys)"

record settings =
  openweather_api_key :: string
  openweather_base_url :: string
  cache_path :: string
  cache_expiry_seconds :: int
  api_timeout :: int

record WeatherService =
  base_url :: string
  api_key :: string
  timeout :: int
  cache :: CacheManager

text \<open>The exception classes of \<^verbatim>\<open>src/utils/exceptions.py\<close>, with their message.\<close>

datatype weather_exc =
    NetworkException string
  | TimeoutException string
  | InvalidResponseException string
  | APIKeyException string
  | CityNotFoundException string

text \<open>\<^verbatim>\<open>WeatherService.__init__\<close>.\<close>

definition WeatherService_init :: "settings \<Rightarrow> weather_exc + WeatherService" where
  "WeatherService_init s =
     (if openweather_api_key s = [] then
        Inl (APIKeyException
          (''OpenWeather API key is not configured. '' @
           ''Please set OPENWEATHER_API_KEY in .env file''))
      else
        Inr \<lparr> base_url = openweather_base_url s,
              api_key = openweather_api_key s,
              timeout = api_timeout s,
              cache = CacheManager_init (cache_path s) (cache_expiry_seconds s) None None \<rparr>)"

text \<open>
  \<^verbatim>\<open>_build_url\<close> assigns into the dictionary it was given; the updated
  dictionary is returned beside the URL.
\<close>

definition build_url :: "WeatherService \<Rightarrow> string \<Rightarrow> params \<Rightarrow> string \<times> params" where
  "build_url svc endpoint ps =
     (let ps1 = AList.update ''appid'' (PStr (api_key svc)) ps;
          ps2 = AList.update ''units'' (PStr ''metric'') ps1;
          query_string = join ''&'' (map (\<lambda>(k, v). k @ ''='' @ str_pyval v) ps2)
      in (base_url svc @ ''/'' @ endpoint @ ''?'' @ query_string, ps2))"

text \<open>
  An HTTP response: the status, the body as text, and what
  \<^verbatim>\<open>response.json()\<close> gives (the document, or the message of the exception).
\<close>

record response =
  status_code :: int
  text_of :: string
  json_of :: "string + json"

text \<open>
  What \<^verbatim>\<open>client.get(url, timeout=...)\<close> does: it raises one of httpx's
  exceptions (with its message) or returns a response. \<open>Httpx_HTTPError\<close>
  stands for the subclasses of \<^verbatim>\<open>httpx.HTTPError\<close> other than the two
  above (protocol, proxy, decoding, redirects); \<^verbatim>\<open>InvalidURL\<close> is not a
  subclass of \<^verbatim>\<open>httpx.HTTPError\<close>.
\<close>

datatype http_outcome =
    Httpx_TimeoutException string
  | Httpx_NetworkError string
  | Httpx_HTTPError string
  | Httpx_InvalidURL string
  | Response response

text \<open>
  What one call of \<^verbatim>\<open>_fetch_data\<close> meets outside the program: the clock when
  the cache is read and when it is written, the provider, the disk.
\<close>

record call_env =
  now_lookup :: time
  now_store :: time
  transport :: "string \<Rightarrow> http_outcome"
  disk :: write_outcome

text \<open>An exception of the service's taxonomy, or one that nothing caught.\<close>

datatype failure = Raised weather_exc | Uncaught py_exc

text \<open>
  \<^verbatim>\<open>_fetch_data\<close>. The dictionary that \<^verbatim>\<open>get\<close> returns has three keys, so
  \<^verbatim>\<open>if cached_data:\<close> holds exactly when it is not \<^verbatim>\<open>None\<close>. The result is
  the value or exception, the caller's parameter dictionary, and the world.
\<close>

definition fetch_data ::
  "datetime_lib \<Rightarrow> WeatherService \<Rightarrow> call_env \<Rightarrow> string \<Rightarrow> params \<Rightarrow> string \<Rightarrow> world
     \<Rightarrow> (failure + fetch_result) \<times> params \<times> world" where
  "fetch_data lib svc env endpoint ps cache_key w =
     (case get lib (cache svc) (now_lookup env) cache_key w of
        (Inl e, w1) \<Rightarrow> (Inl (Uncaught e), ps, w1)
      | (Inr (Some cached_data), w1) \<Rightarrow> (Inr cached_data, ps, w1)
      | (Inr None, w1) \<Rightarrow>
          (let (url, ps') = build_url svc endpoint ps;
               w2 = w1\<lparr>sent := sent w1 @ [url]\<rparr>
           in case transport env url of
                Httpx_TimeoutException m \<Rightarrow>
                  (Inl (Raised (TimeoutException
                     (''Request timeout after '' @ str_int (timeout svc) @ '' seconds: '' @ m))),
                   ps', w2)
              | Httpx_NetworkError m \<Rightarrow>
                  (Inl (Raised (NetworkException (''Network error occurred: '' @ m))), ps', w2)
              | Httpx_HTTPError m \<Rightarrow>
                  (Inl (Raised (NetworkException (''HTTP error occurred: '' @ m))), ps', w2)
              | Httpx_InvalidURL m \<Rightarrow> (Inl (Uncaught InvalidURL), ps', w2)
              | Response r \<Rightarrow>
                  if status_code r = 404 then
                    (Inl (Raised (CityNotFoundException
                       (''City not found: '' @
                        str_pyval (dict_get ps' ''q'' (dict_get ps' ''id'' (PStr ''unknown'')))))),
                     ps', w2)
                  else if status_code r = 401 then
                    (Inl (Raised (APIKeyException ''Invalid API key'')), ps', w2)
                  else if status_code r \<noteq> 200 then
                    (Inl (Raised (InvalidResponseException
                       (''API returned status code '' @ str_int (status_code r) @ '': '' @
                        text_of r))),
                     ps', w2)
                  else
                    (case json_of r of
                       Inl m \<Rightarrow>
                         (Inl (Raised (InvalidResponseException
                            (''Failed to parse JSON response: '' @ m))),
                          ps', w2)
                     | Inr d \<Rightarrow>
                         (Inr \<lparr> data = d, cached = False, cached_at = None \<rparr>, ps',
                          set_entry lib (now_store env) (disk env) cache_key d w2))))"

section \<open>Notions of the specification\<close>

text \<open>
  The closed set of failure kinds of the specification, and the exception class
  of \<^verbatim>\<open>src/utils/exceptions.py\<close> that stands for each.
\<close>

datatype ErrorKind = NetworkFailure | Timeout | InvalidResponse | Unauthorized | NotFound

fun kind_of :: "weather_exc \<Rightarrow> ErrorKind" where
  "kind_of (NetworkException m) = NetworkFailure"
| "kind_of (TimeoutException m) = Timeout"
| "kind_of (InvalidResponseException m) = InvalidResponse"
| "kind_of (APIKeyException m) = Unauthorized"
| "kind_of (CityNotFoundException m) = NotFound"

text \<open>
  The ordered checks of the specification (section 4.3), written from its
  words: the kind of an upstream failure, \<open>None\<close> where the upstream call is
  none of the failures listed there. A success status is the status 200, and
  the transport-level checks take every exception of httpx's
  \<^verbatim>\<open>HTTPError\<close> family.
\<close>

definition classify_spec :: "http_outcome \<Rightarrow> ErrorKind option" where
  "classify_spec out =
     (case out of
        Httpx_TimeoutException m \<Rightarrow> Some Timeout
      | Httpx_NetworkError m \<Rightarrow> Some NetworkFailure
      | Httpx_HTTPError m \<Rightarrow> Some NetworkFailure
      | Httpx_InvalidURL m \<Rightarrow> None
      | Response r \<Rightarrow>
          if status_code r = 404 then Some NotFound
          else if status_code r = 401 then Some Unauthorized
          else if status_code r \<noteq> 200 then Some InvalidResponse
          else (case json_of r of Inl m \<Rightarrow> Some InvalidResponse | Inr d \<Rightarrow> None))"

text \<open>The times to live that \<^verbatim>\<open>timedelta(seconds=...)\<close> accepts.\<close>

definition ttl_in_range :: "CacheManager \<Rightarrow> bool" where
  "ttl_in_range cm =
     (- 86399999913600 \<le> expiry_seconds cm \<and> expiry_seconds cm \<le> 86399999999999)"

text \<open>
  An entry that \<^verbatim>\<open>clear_expired\<close> removes: its age exceeds the time to live,
  or reading it raises.
\<close>

definition stale ::
  "datetime_lib \<Rightarrow> CacheManager \<Rightarrow> time \<Rightarrow> (string \<times> file_state) list \<Rightarrow> string \<Rightarrow> bool" where
  "stale lib cm now fs n =
     (case map_of fs n of
        None \<Rightarrow> True
      | Some st \<Rightarrow>
          (case load_entry lib cm now st of
             Inl e \<Rightarrow> True
           | Inr (cache_data, d, expired) \<Rightarrow> expired))"

text \<open>
  The keys that hold none of the four characters that \<^verbatim>\<open>_get_cache_file_path\<close>
  replaces.
\<close>

definition plain_key :: "string \<Rightarrow> bool" where
  "plain_key key =
     (list_all (\<lambda>c. c \<noteq> CHR ''/'' \<and> c \<noteq> CHR '':'' \<and> c \<noteq> CHR ''?'' \<and> c \<noteq> CHR ''&'') key)"

text \<open>
  A stand-in for Python's \<^verbatim>\<open>datetime\<close> text format at the instants of the
  worked examples: midnight (instant 0), one minute, five minutes and ten
  minutes later, and midnight written with a UTC offset.
\<close>

definition sample_lib :: datetime_lib where
  "sample_lib =
     \<lparr> isoformat = (\<lambda>t.
         if t = 0 then ''1970-01-01T00:00:00''
         else if t = 60000000 then ''1970-01-01T00:01:00''
         else if t = 300000000 then ''1970-01-01T00:05:00''
         else if t = 600000000 then ''1970-01-01T00:10:00''
         else ''unsupported''),
       fromisoformat = (\<lambda>s.
         if s = ''1970-01-01T00:00:00'' then Some (Naive 0)
         else if s = ''1970-01-01T00:01:00'' then Some (Naive 60000000)
         else if s = ''1970-01-01T00:05:00'' then Some (Naive 300000000)
         else if s = ''1970-01-01T00:10:00'' then Some (Naive 600000000)
         else if s = ''1970-01-01T00:00:00+00:00'' then Some (Aware 0)
         else None) \<rparr>"


text \<open>The service, the worlds and the call environment of the worked examples.\<close>

definition sample_service :: WeatherService where
  "sample_service =
     \<lparr> base_url = ''https://api.openweathermap.org/data/2.5'', api_key = ''secret'',
       timeout = 10, cache = \<lparr> cache_dir = ''cache'', expiry_seconds = 300 \<rparr> \<rparr>"

definition empty_world :: world where
  "empty_world = \<lparr> files = [], undeletable = {}, stdout = [], sent = [] \<rparr>"

definition stored_world :: world where
  "stored_world =
     \<lparr> files = [(''weather_London.json'',
                  Document (JObj [(''data'', JNum 7),
                                  (''cached_at'', JStr ''1970-01-01T00:00:00'')]))],
       undeletable = {}, stdout = [], sent = [] \<rparr>"

definition sample_env :: "time \<Rightarrow> http_outcome \<Rightarrow> call_env" where
  "sample_env now out =
     \<lparr> now_lookup = now, now_store = now, transport = (\<lambda>url. out), disk = Written \<rparr>"

section \<open>Frame and branch lemmas for the cache\<close>

lemma unlink_frame:
  "unlink b p w = Inr w' \<Longrightarrow>
     undeletable w' = undeletable w \<and> stdout w' = stdout w \<and> sent w' = sent w \<and>
     (files w' = files w \<or> files w' = AList.delete p (files w))"
  by (auto simp: unlink_def split: option.splits if_splits)

lemma get_handler_frame:
  "get_handler p e w = (r, w') \<Longrightarrow>
     undeletable w' = undeletable w \<and> stdout w' = stdout w \<and> sent w' = sent w \<and>
     (files w' = files w \<or> files w' = AList.delete p (files w))"
  by (auto simp: get_handler_def split: sum.splits if_splits dest: unlink_frame)

lemma get_frame:
  "get lib cm now key w = (r, w') \<Longrightarrow>
     undeletable w' = undeletable w \<and> stdout w' = stdout w \<and> sent w' = sent w \<and>
     (files w' = files w \<or> files w' = AList.delete (get_cache_file_path key) (files w))"
  by (auto simp: get_def Let_def split: option.splits sum.splits prod.splits if_splits
           dest: unlink_frame get_handler_frame)

lemma get_absent:
  "map_of (files w) (get_cache_file_path key) = None \<Longrightarrow> get lib cm now key w = (Inr None, w)"
  by (simp add: get_def)

lemma get_hit_unchanged:
  "get lib cm now key w = (Inr (Some e), w') \<Longrightarrow> w' = w \<and> cached e"
  by (auto simp: get_def Let_def get_handler_def
           split: option.splits sum.splits prod.splits if_splits)

lemma get_fresh:
  assumes "map_of (files w) (get_cache_file_path key) = Some (Document (JObj kvs))"
    and "map_of kvs ''cached_at'' = Some (JStr s)"
    and "fromisoformat lib s = Some (Naive t)"
    and "map_of kvs ''data'' = Some v"
    and "timedelta_seconds (expiry_seconds cm) = Inr ttl"
    and "now - t \<le> ttl"
  shows "get lib cm now key w = (Inr (Some \<lparr> data = v, cached = True, cached_at = Some (Naive t) \<rparr>), w)"
  using assms
  by (simp add: get_def load_entry_def json_load_def subscript_def parse_cached_at_def age_def)

lemma get_expired:
  assumes "map_of (files w) (get_cache_file_path key) = Some (Document (JObj kvs))"
    and "map_of kvs ''cached_at'' = Some (JStr s)"
    and "fromisoformat lib s = Some (Naive t)"
    and "timedelta_seconds (expiry_seconds cm) = Inr ttl"
    and "now - t > ttl"
    and "get_cache_file_path key \<notin> undeletable w"
  shows "get lib cm now key w =
           (Inr None, w\<lparr>files := AList.delete (get_cache_file_path key) (files w)\<rparr>)"
  using assms
  by (simp add: get_def load_entry_def json_load_def subscript_def parse_cached_at_def age_def
        unlink_def)

lemma safe_key_map:
  "safe_key key =
     map (\<lambda>c. if c = CHR ''/'' \<or> c = CHR '':'' \<or> c = CHR ''?'' \<or> c = CHR ''&''
               then CHR ''_'' else c) key"
  by (simp add: safe_key_def replace_char_def)

lemma safe_key_plain: "plain_key key \<Longrightarrow> safe_key key = key"
  by (induction key) (auto simp: safe_key_map plain_key_def)

lemma glob_json_path:
  "(get_cache_file_path key \<in> set (glob_json w)) =
   (get_cache_file_path key \<in> fst ` set (files w))"
  by (auto simp: glob_json_def get_cache_file_path_def)

lemma set_entry_written_lookup:
  "map_of (files (set_entry lib now Written key payload w)) =
   (map_of (files w))(get_cache_file_path key \<mapsto>
      Document (JObj [(''data'', payload), (''cached_at'', JStr (isoformat lib now))]))"
  by (simp add: set_entry_def update_conv')

section \<open>Branches of \<^verbatim>\<open>_fetch_data\<close>\<close>

lemma get_hit_form:
  "get lib cm now key w = (Inr (Some e), w1) \<Longrightarrow>
     w1 = w \<and>
     (\<exists>kvs s v d. map_of (files w) (get_cache_file_path key) = Some (Document (JObj kvs)) \<and>
        map_of kvs ''cached_at'' = Some (JStr s) \<and> fromisoformat lib s = Some d \<and>
        map_of kvs ''data'' = Some v \<and>
        e = \<lparr> data = v, cached = True, cached_at = Some d \<rparr>)"
  by (auto simp: get_def Let_def get_handler_def load_entry_def json_load_def subscript_def
        parse_cached_at_def
      split: option.splits sum.splits prod.splits if_splits file_state.splits json.splits)

lemma fetch_data_hit:
  "get lib (cache svc) (now_lookup env) cache_key w = (Inr (Some e), w1) \<Longrightarrow>
     fetch_data lib svc env endpoint ps cache_key w = (Inr e, ps, w1)"
  by (simp add: fetch_data_def)

lemma fetch_data_success:
  "get lib (cache svc) (now_lookup env) cache_key w = (Inr None, w1) \<Longrightarrow>
   transport env (fst (build_url svc endpoint ps)) = Response r \<Longrightarrow>
   status_code r = 200 \<Longrightarrow> json_of r = Inr d \<Longrightarrow>
     fetch_data lib svc env endpoint ps cache_key w =
       (Inr \<lparr> data = d, cached = False, cached_at = None \<rparr>,
        snd (build_url svc endpoint ps),
        set_entry lib (now_store env) (disk env) cache_key d
          (w1\<lparr>sent := sent w1 @ [fst (build_url svc endpoint ps)]\<rparr>))"
  by (simp add: fetch_data_def Let_def split_beta)

lemma fetch_data_failure:
  "get lib (cache svc) (now_lookup env) cache_key w = (Inr None, w1) \<Longrightarrow>
   classify_spec (transport env (fst (build_url svc endpoint ps))) = Some k \<Longrightarrow>
     \<exists>x. fetch_data lib svc env endpoint ps cache_key w =
           (Inl (Raised x), snd (build_url svc endpoint ps),
            w1\<lparr>sent := sent w1 @ [fst (build_url svc endpoint ps)]\<rparr>) \<and>
         kind_of x = k"
  by (auto simp: fetch_data_def classify_spec_def Let_def split_beta
      split: http_outcome.splits if_splits sum.splits)

lemma fetch_data_result_form:
  assumes "fetch_data lib svc env endpoint ps cache_key w = (Inr res, ps', w')"
  shows "get lib (cache svc) (now_lookup env) cache_key w = (Inr (Some res), w') \<or>
         \<not> cached res \<and> cached_at res = None"
proof -
  obtain g w1 where g: "get lib (cache svc) (now_lookup env) cache_key w = (g, w1)"
    by (cases "get lib (cache svc) (now_lookup env) cache_key w")
  show ?thesis
    using assms unfolding fetch_data_def g
    by (auto simp: Let_def split_beta
        split: http_outcome.splits if_splits sum.splits option.splits)
qed

text \<open>The cache lookups of the worked examples.\<close>

lemma sample_get_stored:
  "get sample_lib (cache sample_service) 60000000 ''weather_London'' stored_world =
     (Inr (Some \<lparr> data = JNum 7, cached = True, cached_at = Some (Naive 0) \<rparr>), stored_world)"
  by (simp add: get_def get_cache_file_path_def safe_key_def replace_char_def load_entry_def
        json_load_def subscript_def parse_cached_at_def age_def timedelta_seconds_def
        sample_lib_def sample_service_def stored_world_def)

lemma sample_get_expired:
  "get sample_lib (cache sample_service) 600000000 ''weather_London'' stored_world =
     (Inr None, empty_world)"
  by (simp add: get_def get_cache_file_path_def safe_key_def replace_char_def load_entry_def
        json_load_def subscript_def parse_cached_at_def age_def timedelta_seconds_def
        sample_lib_def sample_service_def stored_world_def unlink_def empty_world_def)

lemma sample_get_empty:
  "get lib cm now key empty_world = (Inr None, empty_world)"
  by (simp add: get_def empty_world_def)

lemma delete_other: "q \<noteq> p \<Longrightarrow> map_of (AList.delete p fs) q = map_of fs q"
  by (simp add: delete_conv')

section \<open>The sweeps\<close>


lemma in_keys_map_of: "(n \<in> fst ` set fs) = (map_of fs n \<noteq> None)"
  by (simp add: map_of_eq_None_iff)

lemma delete_absent: "map_of fs n = None \<Longrightarrow> AList.delete n fs = fs"
  by (simp add: map_of_eq_None_iff)


lemma stale_delete:
  "m \<noteq> n \<Longrightarrow> stale lib cm now (AList.delete n fs) m = stale lib cm now fs m"
  by (simp add: stale_def)

lemma clear_expired_loop_result:
  "distinct ns \<Longrightarrow>
   \<forall>n \<in> set ns. stale lib cm now (files w) n \<longrightarrow> n \<notin> undeletable w \<Longrightarrow>
   clear_expired_loop lib cm now ns c w =
     (Inr (c + length (filter (stale lib cm now (files w)) ns)),
      w\<lparr>files := filter (\<lambda>p. \<not> (fst p \<in> set ns \<and> stale lib cm now (files w) (fst p)))
                   (files w)\<rparr>)"
proof (induction ns arbitrary: c w)
  case Nil
  then show ?case by simp
next
  case (Cons n rest)
  then have d: "distinct rest" and nr: "n \<notin> set rest" by simp_all
  have ne: "\<And>m. m \<in> set rest \<Longrightarrow> m \<noteq> n" using nr by auto
  let ?S = "\<lambda>fs. stale lib cm now fs"
  let ?K = "\<lambda>fs ns p. \<not> (fst p \<in> set ns \<and> stale lib cm now fs (fst p))"
  show ?case
  proof (cases "stale lib cm now (files w) n")
    case False
    then obtain st cd dt where st: "map_of (files w) n = Some st"
      "load_entry lib cm now st = Inr (cd, dt, False)"
      by (auto simp: stale_def split: option.splits sum.splits)
    have r: "\<forall>m \<in> set rest. stale lib cm now (files w) m \<longrightarrow> m \<notin> undeletable w"
      using Cons.prems by simp
    have step: "clear_expired_loop lib cm now (n # rest) c w =
                clear_expired_loop lib cm now rest c w"
      using st by simp
    have count: "length (filter (?S (files w)) (n # rest)) = length (filter (?S (files w)) rest)"
      using False by simp
    have fl: "filter (?K (files w) (n # rest)) (files w) = filter (?K (files w) rest) (files w)"
      using False by (intro filter_cong) force+
    show ?thesis
      unfolding step Cons.IH[OF d r] by (simp only: count fl)
  next
    case True
    then have nu: "n \<notin> undeletable w" using Cons.prems by simp
    let ?w' = "w\<lparr>files := AList.delete n (files w)\<rparr>"
    have r: "\<forall>m \<in> set rest. stale lib cm now (files ?w') m \<longrightarrow> m \<notin> undeletable ?w'"
      using Cons.prems by (simp add: stale_delete ne)
    have step: "clear_expired_loop lib cm now (n # rest) c w =
                clear_expired_loop lib cm now rest (c + 1) ?w'"
      using True nu
      by (auto simp: stale_def expired_handler_def unlink_def delete_absent
          split: option.splits sum.splits prod.splits)
    have count: "c + 1 + length (filter (?S (files ?w')) rest) =
                 c + length (filter (?S (files w)) (n # rest))"
    proof -
      have "filter (?S (files ?w')) rest = filter (?S (files w)) rest"
        by (rule filter_cong[OF refl]) (simp add: stale_delete ne)
      then show ?thesis using True by simp
    qed
    have fl: "filter (?K (files ?w') rest) (files ?w') = filter (?K (files w) (n # rest)) (files w)"
    proof -
      have "filter (?K (files ?w') rest) (files ?w') =
            filter (\<lambda>p. ?K (files ?w') rest p \<and> fst p \<noteq> n) (files w)"
        by (simp add: AList.delete_eq, intro filter_cong) auto
      also have "\<dots> = filter (?K (files w) (n # rest)) (files w)"
      proof (rule filter_cong[OF refl])
        fix p assume "p \<in> set (files w)"
        show "(?K (files ?w') rest p \<and> fst p \<noteq> n) = ?K (files w) (n # rest) p"
        proof (cases "fst p = n")
          case True
          with \<open>stale lib cm now (files w) n\<close> show ?thesis by simp
        next
          case False
          then show ?thesis by (simp add: stale_delete)
        qed
      qed
      finally show ?thesis .
    qed
    have "clear_expired_loop lib cm now (n # rest) c w =
          (Inr (c + 1 + length (filter (?S (files ?w')) rest)),
           ?w'\<lparr>files := filter (?K (files ?w') rest) (files ?w')\<rparr>)"
      unfolding step using Cons.IH[OF d r, of "c + 1"] by simp
    then show ?thesis
      by (simp only: count fl) simp
  qed
qed

lemma glob_json_distinct: "distinct (glob_json w)"
  by (simp add: glob_json_def)


lemma glob_json_filter_files:
  "glob_json (w\<lparr>files := filter (\<lambda>p. K (fst p)) (files w)\<rparr>) = filter K (glob_json w)"
proof -
  let ?J = "\<lambda>n::string. length n \<ge> 5 \<and> drop (length n - 5) n = ''.json''"
  have "map fst (filter (\<lambda>p. K (fst p)) (files w)) = filter K (map fst (files w))"
    by (simp add: filter_map comp_def)
  then have "glob_json (w\<lparr>files := filter (\<lambda>p. K (fst p)) (files w)\<rparr>) =
             remdups (filter ?J (filter K (map fst (files w))))"
    by (simp add: glob_json_def)
  also have "filter ?J (filter K (map fst (files w))) = filter K (filter ?J (map fst (files w)))"
    by (simp add: conj_commute)
  also have "remdups \<dots> = filter K (glob_json w)"
    by (simp add: glob_json_def remdups_filter)
  finally show ?thesis .
qed



lemma clear_expired_result:
  assumes "\<forall>n \<in> set (glob_json w). stale lib cm now (files w) n \<longrightarrow> n \<notin> undeletable w"
  shows "clear_expired lib cm now w =
     (Inr (length (filter (stale lib cm now (files w)) (glob_json w))),
      w\<lparr>files := filter (\<lambda>p. \<not> (fst p \<in> set (glob_json w) \<and>
                                  stale lib cm now (files w) (fst p))) (files w)\<rparr>)"
  unfolding clear_expired_def clear_expired_loop_result[OF glob_json_distinct assms] by simp

lemma clear_expired_sweeps:
  assumes "\<forall>n \<in> set (glob_json w). stale lib cm now (files w) n \<longrightarrow> n \<notin> undeletable w"
  shows "fst (clear_expired lib cm now w) =
           Inr (length (filter (stale lib cm now (files w)) (glob_json w))) \<and>
         glob_json (snd (clear_expired lib cm now w)) =
           filter (\<lambda>n. \<not> stale lib cm now (files w) n) (glob_json w) \<and>
         undeletable (snd (clear_expired lib cm now w)) = undeletable w \<and>
         (\<forall>n. \<not> stale lib cm now (files w) n \<longrightarrow>
            map_of (files (snd (clear_expired lib cm now w))) n = map_of (files w) n)"
proof -
  let ?K = "\<lambda>n. \<not> (n \<in> set (glob_json w) \<and> stale lib cm now (files w) n)"
  have "glob_json (snd (clear_expired lib cm now w)) = filter ?K (glob_json w)"
    unfolding clear_expired_result[OF assms] snd_conv
    by (rule glob_json_filter_files[where K = ?K])
  also have "\<dots> = filter (\<lambda>n. \<not> stale lib cm now (files w) n) (glob_json w)"
    by (rule filter_cong[OF refl]) simp
  finally have g: "glob_json (snd (clear_expired lib cm now w)) =
     filter (\<lambda>n. \<not> stale lib cm now (files w) n) (glob_json w)" .
  have m: "\<And>n. \<not> stale lib cm now (files w) n \<Longrightarrow>
     map_of (filter (\<lambda>p. ?K (fst p)) (files w)) n = map_of (files w) n"
    unfolding map_of_filter[where P = ?K] by (simp add: restrict_map_def)
  have f: "files (snd (clear_expired lib cm now w)) = filter (\<lambda>p. ?K (fst p)) (files w)"
    unfolding clear_expired_result[OF assms] by simp
  have c: "fst (clear_expired lib cm now w) =
           Inr (length (filter (stale lib cm now (files w)) (glob_json w)))"
    unfolding clear_expired_result[OF assms] by simp
  have u: "undeletable (snd (clear_expired lib cm now w)) = undeletable w"
    unfolding clear_expired_result[OF assms] by simp
  show ?thesis
    unfolding f using c g u m by blast
qed



text \<open>Entries in range of the time to live, and the single file of a key.\<close>

lemma timedelta_in_range:
  "ttl_in_range cm \<Longrightarrow>
     timedelta_seconds (expiry_seconds cm) = Inr (expiry_seconds cm * 1000000)"
  by (simp add: ttl_in_range_def timedelta_seconds_def)

lemma stale_valid_entry:
  assumes "map_of fs n = Some (Document (JObj kvs))"
    and "map_of kvs ''cached_at'' = Some (JStr s)"
    and "fromisoformat lib s = Some (Naive t)"
    and "ttl_in_range cm"
  shows "stale lib cm now fs n = (now - t > expiry_seconds cm * 1000000)"
  using assms
  by (simp add: stale_def load_entry_def json_load_def subscript_def parse_cached_at_def
        age_def timedelta_in_range)


lemma clear_expired_removes:
  assumes "\<forall>n \<in> set (glob_json w). stale lib cm now (files w) n \<longrightarrow> n \<notin> undeletable w"
    and "n \<in> set (glob_json w)" and "stale lib cm now (files w) n"
  shows "map_of (files (snd (clear_expired lib cm now w))) n = None"
proof -
  let ?K = "\<lambda>n. \<not> (n \<in> set (glob_json w) \<and> stale lib cm now (files w) n)"
  have f: "files (snd (clear_expired lib cm now w)) = filter (\<lambda>p. ?K (fst p)) (files w)"
    unfolding clear_expired_result[OF assms(1)] by simp
  show ?thesis
    unfolding f map_of_filter[where P = ?K] using assms(2,3) by (simp add: restrict_map_def)
qed




section \<open>The claims\<close>

text \<open>
  C1, at an input where the code departs from it. The claim: \<^verbatim>\<open>get\<close> returns
  \<^verbatim>\<open>None\<close> when the stored record is corrupt (invalid JSON, missing field or
  bad timestamp) and removes the file. For a record whose \<^verbatim>\<open>cached_at\<close> is
  a JSON number, \<^verbatim>\<open>datetime.fromisoformat\<close> raises \<^verbatim>\<open>TypeError\<close>, which
  the \<^verbatim>\<open>except\<close> clause of \<^verbatim>\<open>get\<close> does not list: the exception leaves
  \<^verbatim>\<open>get\<close> and the file stays. \<^verbatim>\<open>clear_expired\<close>, which catches every
  exception, removes the same record and counts it.
\<close>

theorem get_non_string_timestamp_raises:
  "get lib cm now ''weather_London''
     \<lparr> files = [(''weather_London.json'',
                  Document (JObj [(''data'', JObj []), (''cached_at'', JNum 5)]))],
       undeletable = {}, stdout = [], sent = [] \<rparr>
   = (Inl TypeError,
      \<lparr> files = [(''weather_London.json'',
                  Document (JObj [(''data'', JObj []), (''cached_at'', JNum 5)]))],
        undeletable = {}, stdout = [], sent = [] \<rparr>) \<and>
   clear_expired lib cm now
     \<lparr> files = [(''weather_London.json'',
                  Document (JObj [(''data'', JObj []), (''cached_at'', JNum 5)]))],
       undeletable = {}, stdout = [], sent = [] \<rparr>
   = (Inr 1, \<lparr> files = [], undeletable = {}, stdout = [], sent = [] \<rparr>)"
  by (simp add: get_def get_cache_file_path_def safe_key_def replace_char_def load_entry_def
        json_load_def subscript_def parse_cached_at_def get_handler_def
        clear_expired_def glob_json_def expired_handler_def unlink_def)

text \<open>
  C5: \<^verbatim>\<open>set\<close> stores the payload with the current time under the key's file,
  whatever was there before; when opening or writing the file fails, the
  failure is printed as a warning and \<^verbatim>\<open>set\<close> returns normally; and a
  \<^verbatim>\<open>_fetch_data\<close> that misses the cache, receives status 200 with a JSON
  body and then fails to write the cache still returns the fetched payload,
  having printed one warning.
\<close>

theorem set_persists_and_swallows_failure:
  "map_of (files (set_entry lib now Written key payload w)) =
     (map_of (files w))(get_cache_file_path key \<mapsto>
        Document (JObj [(''data'', payload), (''cached_at'', JStr (isoformat lib now))])) \<and>
   set_entry lib now (Open_fails msg) key payload w =
     w\<lparr>stdout := stdout w @ [''Warning: Failed to cache data: '' @ msg]\<rparr> \<and>
   stdout (set_entry lib now (Dump_fails msg partial) key payload w) =
     stdout w @ [''Warning: Failed to cache data: '' @ msg] \<and>
   (get lib (cache svc) (now_lookup env) cache_key w = (Inr None, w1) \<and>
    transport env (fst (build_url svc endpoint ps)) = Response r \<and>
    status_code r = 200 \<and> json_of r = Inr d \<and> disk env \<noteq> Written
    \<longrightarrow> fst (fetch_data lib svc env endpoint ps cache_key w) =
          Inr \<lparr> data = d, cached = False, cached_at = None \<rparr> \<and>
        length (stdout (snd (snd (fetch_data lib svc env endpoint ps cache_key w)))) =
          Suc (length (stdout w)))"
proof -
  have frame: "get lib (cache svc) (now_lookup env) cache_key w = (Inr None, w1)
      \<Longrightarrow> stdout w1 = stdout w"
    by (auto dest: get_frame)
  show ?thesis
    using frame
    by (cases "disk env")
       (auto simp: set_entry_def update_conv' fetch_data_def Let_def split: prod.splits)
qed

theorem set_persists_and_swallows_failure_witness:
  "get sample_lib \<lparr> cache_dir = ''cache'', expiry_seconds = 300 \<rparr> 0 ''weather_London''
     \<lparr> files = [], undeletable = {}, stdout = [], sent = [] \<rparr>
     = (Inr None, \<lparr> files = [], undeletable = {}, stdout = [], sent = [] \<rparr>) \<and>
   Open_fails ''No space left on device'' \<noteq> Written \<and>
   fst (fetch_data sample_lib
          \<lparr> base_url = ''https://api.openweathermap.org/data/2.5'', api_key = ''k'',
            timeout = 10, cache = \<lparr> cache_dir = ''cache'', expiry_seconds = 300 \<rparr> \<rparr>
          \<lparr> now_lookup = 0, now_store = 60000000,
            transport = (\<lambda>url. Response \<lparr> status_code = 200, text_of = ''{}'',
                                            json_of = Inr (JObj []) \<rparr>),
            disk = Open_fails ''No space left on device'' \<rparr>
          ''weather'' [(''q'', PStr ''London'')] ''weather_London''
          \<lparr> files = [], undeletable = {}, stdout = [], sent = [] \<rparr>)
     = Inr \<lparr> data = JObj [], cached = False, cached_at = None \<rparr>"
  using set_persists_and_swallows_failure
    [where lib = sample_lib
       and svc = "\<lparr> base_url = ''https://api.openweathermap.org/data/2.5'', api_key = ''k'',
            timeout = 10, cache = \<lparr> cache_dir = ''cache'', expiry_seconds = 300 \<rparr> \<rparr>"
       and env = "\<lparr> now_lookup = 0, now_store = 60000000,
            transport = (\<lambda>url. Response \<lparr> status_code = 200, text_of = ''{}'',
                                            json_of = Inr (JObj []) \<rparr>),
            disk = Open_fails ''No space left on device'' \<rparr>"
       and cache_key = "''weather_London''"
       and w = "\<lparr> files = [], undeletable = {}, stdout = [], sent = [] \<rparr>"
       and ?w1.0 = "\<lparr> files = [], undeletable = {}, stdout = [], sent = [] \<rparr>"
       and endpoint = "''weather''" and ps = "[(''q'', PStr ''London'')]"
       and r = "\<lparr> status_code = 200, text_of = ''{}'', json_of = Inr (JObj []) \<rparr>"
       and d = "JObj []"]
  by (simp add: get_def)

text \<open>
  C7 as stated fails: the encoding is not injective. The keys \<^verbatim>\<open>a/b\<close> and
  \<^verbatim>\<open>a:b\<close> are distinct and get the same storage identifier and file.
\<close>

theorem safe_key_collision:
  "''a/b'' \<noteq> ''a:b'' \<and> safe_key ''a/b'' = safe_key ''a:b'' \<and>
   get_cache_file_path ''a/b'' = get_cache_file_path ''a:b''"
  by (simp add: get_cache_file_path_def safe_key_def replace_char_def)

text \<open>
  C7, amended: the encoding is a total function that replaces each \<^verbatim>\<open>/\<close>,
  \<^verbatim>\<open>:\<close>, \<^verbatim>\<open>?\<close> and \<^verbatim>\<open>&\<close> by \<^verbatim>\<open>_\<close> and keeps every other
  character and the length; two distinct keys that contain none of these four
  characters get distinct storage identifiers and distinct files.
\<close>

theorem safe_key_replaces_injective_on_plain:
  "safe_key key =
     map (\<lambda>c. if c = CHR ''/'' \<or> c = CHR '':'' \<or> c = CHR ''?'' \<or> c = CHR ''&''
               then CHR ''_'' else c) key \<and>
   length (safe_key key) = length key \<and>
   (plain_key k1 \<and> plain_key k2 \<and> k1 \<noteq> k2 \<longrightarrow>
      safe_key k1 \<noteq> safe_key k2 \<and> get_cache_file_path k1 \<noteq> get_cache_file_path k2)"
  using safe_key_plain[of k1] safe_key_plain[of k2]
  by (simp add: safe_key_map get_cache_file_path_def)

theorem safe_key_replaces_injective_on_plain_witness:
  "plain_key ''weather_London'' \<and> plain_key ''weather_Paris'' \<and>
   ''weather_London'' \<noteq> ''weather_Paris'' \<and>
   safe_key ''forecast/London?cnt=8'' = ''forecast_London_cnt=8'' \<and>
   get_cache_file_path ''weather_London'' \<noteq> get_cache_file_path ''weather_Paris''"
  using safe_key_replaces_injective_on_plain
          [of "''forecast/London?cnt=8''" "''weather_London''" "''weather_Paris''"]
  by (simp add: plain_key_def)

text \<open>
  C3: after a cache miss, every upstream failure of the specification's list
  makes \<^verbatim>\<open>_fetch_data\<close> raise one exception, of the class that stands for
  the kind the ordered checks give: a timeout gives \<open>Timeout\<close>, a network or
  other transport error \<open>NetworkFailure\<close> (no response exists whose status
  could be read), status 404 \<open>NotFound\<close>, status 401 \<open>Unauthorized\<close>, any
  other status than 200 \<open>InvalidResponse\<close> with a message that holds the
  status and the body, and status 200 with a body that is not JSON
  \<open>InvalidResponse\<close>.
\<close>

theorem upstream_failure_classified:
  "(get lib (cache svc) (now_lookup env) cache_key w = (Inr None, w1) \<and>
    classify_spec (transport env (fst (build_url svc endpoint ps))) = Some k \<longrightarrow>
      (\<exists>x. fst (fetch_data lib svc env endpoint ps cache_key w) = Inl (Raised x) \<and>
           kind_of x = k)) \<and>
   (get lib (cache svc) (now_lookup env) cache_key w = (Inr None, w1) \<and>
    transport env (fst (build_url svc endpoint ps)) = Response r \<and>
    status_code r \<noteq> 404 \<and> status_code r \<noteq> 401 \<and> status_code r \<noteq> 200 \<longrightarrow>
      fst (fetch_data lib svc env endpoint ps cache_key w) =
        Inl (Raised (InvalidResponseException
          (''API returned status code '' @ str_int (status_code r) @ '': '' @ text_of r)))) \<and>
   classify_spec (Httpx_TimeoutException m) = Some Timeout \<and>
   classify_spec (Httpx_NetworkError m) = Some NetworkFailure \<and>
   classify_spec (Httpx_HTTPError m) = Some NetworkFailure"
proof (intro conjI impI)
  assume "get lib (cache svc) (now_lookup env) cache_key w = (Inr None, w1) \<and>
    classify_spec (transport env (fst (build_url svc endpoint ps))) = Some k"
  then obtain x where
    "fetch_data lib svc env endpoint ps cache_key w =
       (Inl (Raised x), snd (build_url svc endpoint ps),
        w1\<lparr>sent := sent w1 @ [fst (build_url svc endpoint ps)]\<rparr>)" "kind_of x = k"
    using fetch_data_failure by blast
  then show "\<exists>x. fst (fetch_data lib svc env endpoint ps cache_key w) = Inl (Raised x) \<and>
           kind_of x = k"
    by simp
next
  assume "get lib (cache svc) (now_lookup env) cache_key w = (Inr None, w1) \<and>
    transport env (fst (build_url svc endpoint ps)) = Response r \<and>
    status_code r \<noteq> 404 \<and> status_code r \<noteq> 401 \<and> status_code r \<noteq> 200"
  then show "fst (fetch_data lib svc env endpoint ps cache_key w) =
        Inl (Raised (InvalidResponseException
          (''API returned status code '' @ str_int (status_code r) @ '': '' @ text_of r)))"
    by (simp add: fetch_data_def Let_def split_beta)
qed (simp_all add: classify_spec_def)

theorem upstream_failure_classified_witness:
  "(\<exists>x. fst (fetch_data sample_lib sample_service
                (sample_env 0 (Httpx_TimeoutException ''timed out''))
                ''weather'' [(''q'', PStr ''London'')] ''weather_London'' empty_world) =
          Inl (Raised x) \<and> kind_of x = Timeout) \<and>
   fst (fetch_data sample_lib sample_service
          (sample_env 0 (Response \<lparr> status_code = 500, text_of = ''upstream failure'',
                                     json_of = Inl ''Expecting value'' \<rparr>))
          ''weather'' [(''q'', PStr ''London'')] ''weather_London'' empty_world) =
     Inl (Raised (InvalidResponseException ''API returned status code 500: upstream failure''))"
proof -
  have a: "get sample_lib (cache sample_service)
             (now_lookup (sample_env 0 (Httpx_TimeoutException ''timed out'')))
             ''weather_London'' empty_world = (Inr None, empty_world) \<and>
           classify_spec (transport (sample_env 0 (Httpx_TimeoutException ''timed out''))
             (fst (build_url sample_service ''weather'' [(''q'', PStr ''London'')]))) =
           Some Timeout"
    by (simp add: sample_get_empty sample_env_def classify_spec_def)
  have b: "get sample_lib (cache sample_service)
             (now_lookup (sample_env 0 (Response \<lparr> status_code = 500, text_of = ''upstream failure'',
                                     json_of = Inl ''Expecting value'' \<rparr>)))
             ''weather_London'' empty_world = (Inr None, empty_world) \<and>
           transport (sample_env 0 (Response \<lparr> status_code = 500, text_of = ''upstream failure'',
                                     json_of = Inl ''Expecting value'' \<rparr>))
             (fst (build_url sample_service ''weather'' [(''q'', PStr ''London'')])) =
           Response \<lparr> status_code = 500, text_of = ''upstream failure'',
                                     json_of = Inl ''Expecting value'' \<rparr> \<and>
           status_code \<lparr> status_code = 500, text_of = ''upstream failure'',
                                     json_of = Inl ''Expecting value'' \<rparr> \<noteq> 404 \<and>
           status_code \<lparr> status_code = 500, text_of = ''upstream failure'',
                                     json_of = Inl ''Expecting value'' \<rparr> \<noteq> 401 \<and>
           status_code \<lparr> status_code = 500, text_of = ''upstream failure'',
                                     json_of = Inl ''Expecting value'' \<rparr> \<noteq> 200"
    by (simp add: sample_get_empty sample_env_def)
  show ?thesis
    using upstream_failure_classified[THEN conjunct1, rule_format, OF a]
          upstream_failure_classified[THEN conjunct2, THEN conjunct1, rule_format, OF b]
    by (simp add: str_int_def str_nat.simps digit_char_def)
qed

text \<open>
  C4 as stated fails: the cache state of the key is not always what it was
  before the call. With an expired record stored for the key and a provider
  that times out, \<^verbatim>\<open>_fetch_data\<close> raises \<^verbatim>\<open>TimeoutException\<close> and the
  record, present before the call, is gone after it: the lookup at the start
  of the call removed it.
\<close>

theorem failed_fetch_evicts_expired_entry:
  "fst (fetch_data sample_lib sample_service
          (sample_env 600000000 (Httpx_TimeoutException ''timed out''))
          ''weather'' [(''q'', PStr ''London'')] ''weather_London'' stored_world) =
     Inl (Raised (TimeoutException ''Request timeout after 10 seconds: timed out'')) \<and>
   map_of (files stored_world) (get_cache_file_path ''weather_London'') =
     Some (Document (JObj [(''data'', JNum 7),
                           (''cached_at'', JStr ''1970-01-01T00:00:00'')])) \<and>
   map_of (files (snd (snd (fetch_data sample_lib sample_service
          (sample_env 600000000 (Httpx_TimeoutException ''timed out''))
          ''weather'' [(''q'', PStr ''London'')] ''weather_London'' stored_world))))
     (get_cache_file_path ''weather_London'') = None"
proof -
  have t: "timeout sample_service = 10"
    by (simp add: sample_service_def)
  have s: "str_int 10 = ''10''"
    by (simp add: str_int_def str_nat.simps digit_char_def)
  have "fetch_data sample_lib sample_service
          (sample_env 600000000 (Httpx_TimeoutException ''timed out''))
          ''weather'' [(''q'', PStr ''London'')] ''weather_London'' stored_world =
        (Inl (Raised (TimeoutException ''Request timeout after 10 seconds: timed out'')),
         snd (build_url sample_service ''weather'' [(''q'', PStr ''London'')]),
         empty_world\<lparr>sent := sent empty_world @
            [fst (build_url sample_service ''weather'' [(''q'', PStr ''London'')])]\<rparr>)"
    by (simp add: fetch_data_def sample_env_def sample_get_expired split_beta t s)
  then show ?thesis
    by (simp add: stored_world_def empty_world_def get_cache_file_path_def safe_key_def
          replace_char_def)
qed

text \<open>
  C4, amended: when the upstream request fails, \<^verbatim>\<open>_fetch_data\<close> raises
  exactly one exception of the taxonomy and writes nothing: the files after
  the call are the files that the initial cache lookup left, nothing is
  printed, the lookup left the files as they were or removed the key's own
  file, the files are unchanged when the key had no file, and every other
  file is as before.
\<close>

theorem failed_fetch_does_not_write:
  "get lib (cache svc) (now_lookup env) cache_key w = (Inr None, w1) \<and>
   classify_spec (transport env (fst (build_url svc endpoint ps))) = Some k \<longrightarrow>
     (\<exists>x. fst (fetch_data lib svc env endpoint ps cache_key w) = Inl (Raised x) \<and>
          kind_of x = k) \<and>
     files (snd (snd (fetch_data lib svc env endpoint ps cache_key w))) = files w1 \<and>
     stdout (snd (snd (fetch_data lib svc env endpoint ps cache_key w))) = stdout w \<and>
     (files w1 = files w \<or> files w1 = AList.delete (get_cache_file_path cache_key) (files w)) \<and>
     (map_of (files w) (get_cache_file_path cache_key) = None \<longrightarrow>
        files (snd (snd (fetch_data lib svc env endpoint ps cache_key w))) = files w) \<and>
     (q \<noteq> get_cache_file_path cache_key \<longrightarrow>
        map_of (files (snd (snd (fetch_data lib svc env endpoint ps cache_key w)))) q =
        map_of (files w) q)"
proof (intro impI)
  assume h: "get lib (cache svc) (now_lookup env) cache_key w = (Inr None, w1) \<and>
   classify_spec (transport env (fst (build_url svc endpoint ps))) = Some k"
  then have g: "get lib (cache svc) (now_lookup env) cache_key w = (Inr None, w1)" by simp
  from h obtain x where
    f: "fetch_data lib svc env endpoint ps cache_key w =
       (Inl (Raised x), snd (build_url svc endpoint ps),
        w1\<lparr>sent := sent w1 @ [fst (build_url svc endpoint ps)]\<rparr>)" and k: "kind_of x = k"
    using fetch_data_failure by blast
  have fr: "stdout w1 = stdout w"
    "files w1 = files w \<or> files w1 = AList.delete (get_cache_file_path cache_key) (files w)"
    using get_frame[OF g] by simp_all
  have absent: "map_of (files w) (get_cache_file_path cache_key) = None \<Longrightarrow> w1 = w"
    using g by (simp add: get_absent)
  have other: "q \<noteq> get_cache_file_path cache_key \<Longrightarrow> map_of (files w1) q = map_of (files w) q"
    using fr(2) by (auto simp: delete_other)
  show "(\<exists>x. fst (fetch_data lib svc env endpoint ps cache_key w) = Inl (Raised x) \<and>
          kind_of x = k) \<and>
     files (snd (snd (fetch_data lib svc env endpoint ps cache_key w))) = files w1 \<and>
     stdout (snd (snd (fetch_data lib svc env endpoint ps cache_key w))) = stdout w \<and>
     (files w1 = files w \<or> files w1 = AList.delete (get_cache_file_path cache_key) (files w)) \<and>
     (map_of (files w) (get_cache_file_path cache_key) = None \<longrightarrow>
        files (snd (snd (fetch_data lib svc env endpoint ps cache_key w))) = files w) \<and>
     (q \<noteq> get_cache_file_path cache_key \<longrightarrow>
        map_of (files (snd (snd (fetch_data lib svc env endpoint ps cache_key w)))) q =
        map_of (files w) q)"
    using k fr absent other by (auto simp: f)
qed

theorem failed_fetch_does_not_write_witness:
  "(\<exists>x. fst (fetch_data sample_lib sample_service
                (sample_env 60000000
                   (Response \<lparr> status_code = 404, text_of = ''city not found'',
                                json_of = Inr JNull \<rparr>))
                ''weather'' [(''q'', PStr ''Atlantis'')] ''weather_Atlantis'' stored_world) =
          Inl (Raised x) \<and> kind_of x = NotFound) \<and>
   files (snd (snd (fetch_data sample_lib sample_service
                (sample_env 60000000
                   (Response \<lparr> status_code = 404, text_of = ''city not found'',
                                json_of = Inr JNull \<rparr>))
                ''weather'' [(''q'', PStr ''Atlantis'')] ''weather_Atlantis'' stored_world))) =
     files stored_world"
proof -
  have none: "map_of (files stored_world) (get_cache_file_path ''weather_Atlantis'') = None"
    by (simp add: stored_world_def get_cache_file_path_def safe_key_def replace_char_def)
  have a: "get sample_lib (cache sample_service)
             (now_lookup (sample_env 60000000
                   (Response \<lparr> status_code = 404, text_of = ''city not found'',
                                json_of = Inr JNull \<rparr>)))
             ''weather_Atlantis'' stored_world = (Inr None, stored_world) \<and>
           classify_spec (transport (sample_env 60000000
                   (Response \<lparr> status_code = 404, text_of = ''city not found'',
                                json_of = Inr JNull \<rparr>))
             (fst (build_url sample_service ''weather'' [(''q'', PStr ''Atlantis'')]))) =
           Some NotFound"
    by (simp add: get_absent[OF none] sample_env_def classify_spec_def)
  show ?thesis
    using failed_fetch_does_not_write[rule_format, OF a] by simp
qed

text \<open>
  C10: on a cache miss \<^verbatim>\<open>_fetch_data\<close> leaves the caller's parameter
  dictionary with \<^verbatim>\<open>appid\<close> set to the API key and \<^verbatim>\<open>units\<close> set to
  \<^verbatim>\<open>metric\<close>, whatever the provider then answers; on a cache hit the
  dictionary is unchanged.
\<close>

theorem fetch_data_mutates_params:
  "(get lib (cache svc) (now_lookup env) cache_key w = (Inr None, w1) \<longrightarrow>
      fst (snd (fetch_data lib svc env endpoint ps cache_key w)) =
        AList.update ''units'' (PStr ''metric'') (AList.update ''appid'' (PStr (api_key svc)) ps) \<and>
      map_of (fst (snd (fetch_data lib svc env endpoint ps cache_key w))) ''appid'' =
        Some (PStr (api_key svc)) \<and>
      map_of (fst (snd (fetch_data lib svc env endpoint ps cache_key w))) ''units'' =
        Some (PStr ''metric'')) \<and>
   (get lib (cache svc) (now_lookup env) cache_key w = (Inr (Some e), w1) \<longrightarrow>
      fst (snd (fetch_data lib svc env endpoint ps cache_key w)) = ps)"
proof (intro conjI impI)
  assume g: "get lib (cache svc) (now_lookup env) cache_key w = (Inr None, w1)"
  show p: "fst (snd (fetch_data lib svc env endpoint ps cache_key w)) =
        AList.update ''units'' (PStr ''metric'') (AList.update ''appid'' (PStr (api_key svc)) ps)"
    by (simp add: fetch_data_def g build_url_def Let_def
          split: http_outcome.splits sum.splits)
  show "map_of (fst (snd (fetch_data lib svc env endpoint ps cache_key w))) ''appid'' =
        Some (PStr (api_key svc))"
    by (simp add: p update_conv')
  show "map_of (fst (snd (fetch_data lib svc env endpoint ps cache_key w))) ''units'' =
        Some (PStr ''metric'')"
    by (simp add: p update_conv')
next
  assume "get lib (cache svc) (now_lookup env) cache_key w = (Inr (Some e), w1)"
  then show "fst (snd (fetch_data lib svc env endpoint ps cache_key w)) = ps"
    by (simp add: fetch_data_hit)
qed

theorem fetch_data_mutates_params_witness:
  "fst (snd (fetch_data sample_lib sample_service
               (sample_env 0 (Httpx_NetworkError ''down''))
               ''weather'' [(''q'', PStr ''London'')] ''weather_London'' empty_world)) =
     [(''q'', PStr ''London''), (''appid'', PStr ''secret''), (''units'', PStr ''metric'')] \<and>
   fst (snd (fetch_data sample_lib sample_service
               (sample_env 60000000 (Httpx_NetworkError ''down''))
               ''weather'' [(''q'', PStr ''London'')] ''weather_London'' stored_world)) =
     [(''q'', PStr ''London'')]"
proof -
  have a: "get sample_lib (cache sample_service)
             (now_lookup (sample_env 0 (Httpx_NetworkError ''down'')))
             ''weather_London'' empty_world = (Inr None, empty_world)"
    by (simp add: sample_get_empty)
  have b: "get sample_lib (cache sample_service)
             (now_lookup (sample_env 60000000 (Httpx_NetworkError ''down'')))
             ''weather_London'' stored_world =
           (Inr (Some \<lparr> data = JNum 7, cached = True, cached_at = Some (Naive 0) \<rparr>),
            stored_world)"
    by (simp add: sample_env_def sample_get_stored)
  show ?thesis
    using fetch_data_mutates_params[THEN conjunct1, rule_format, OF a]
          fetch_data_mutates_params[THEN conjunct2, rule_format, OF b]
    by (simp add: sample_service_def)
qed

text \<open>
  C2: when the cache lookup returns an entry, \<^verbatim>\<open>_fetch_data\<close> returns that
  entry (its payload, \<^verbatim>\<open>cached\<close> true, \<^verbatim>\<open>cached_at\<close> the timestamp read
  from the stored record) and leaves the world as it was, so that no request is
  sent; when the lookup misses and the provider answers 200 with a JSON body,
  the payload is handed to \<^verbatim>\<open>set\<close> under the same key and returned with
  \<^verbatim>\<open>cached\<close> false and \<^verbatim>\<open>cached_at\<close> \<^verbatim>\<open>None\<close>. Every result has
  \<^verbatim>\<open>cached_at\<close> \<^verbatim>\<open>None\<close> when \<^verbatim>\<open>cached\<close> is false and the stored
  timestamp when it is true; for an entry written by \<^verbatim>\<open>set\<close> at instant
  \<open>t0\<close> and looked up within a time to live that \<^verbatim>\<open>timedelta\<close> accepts,
  that timestamp is \<open>t0\<close>, not the time of the lookup.
\<close>

theorem fetch_data_hit_and_miss:
  "(get lib (cache svc) (now_lookup env) cache_key w = (Inr (Some e), w1) \<longrightarrow>
      fetch_data lib svc env endpoint ps cache_key w = (Inr e, ps, w) \<and>
      sent (snd (snd (fetch_data lib svc env endpoint ps cache_key w))) = sent w \<and>
      cached e \<and>
      (\<exists>kvs s v d.
         map_of (files w) (get_cache_file_path cache_key) = Some (Document (JObj kvs)) \<and>
         map_of kvs ''cached_at'' = Some (JStr s) \<and> fromisoformat lib s = Some d \<and>
         map_of kvs ''data'' = Some v \<and> data e = v \<and> cached_at e = Some d)) \<and>
   (get lib (cache svc) (now_lookup env) cache_key w = (Inr None, w1) \<and>
    transport env (fst (build_url svc endpoint ps)) = Response r \<and>
    status_code r = 200 \<and> json_of r = Inr d \<longrightarrow>
      fetch_data lib svc env endpoint ps cache_key w =
        (Inr \<lparr> data = d, cached = False, cached_at = None \<rparr>,
         snd (build_url svc endpoint ps),
         set_entry lib (now_store env) (disk env) cache_key d
           (w1\<lparr>sent := sent w1 @ [fst (build_url svc endpoint ps)]\<rparr>)) \<and>
      (disk env = Written \<longrightarrow>
         map_of (files (snd (snd (fetch_data lib svc env endpoint ps cache_key w))))
           (get_cache_file_path cache_key) =
         Some (Document (JObj [(''data'', d),
                               (''cached_at'', JStr (isoformat lib (now_store env)))])))) \<and>
   (fetch_data lib svc env endpoint ps cache_key w = (Inr res, ps', w') \<longrightarrow>
      (\<not> cached res \<longrightarrow> cached_at res = None) \<and>
      (cached res \<longrightarrow>
         (\<exists>kvs s dt.
            map_of (files w) (get_cache_file_path cache_key) = Some (Document (JObj kvs)) \<and>
            map_of kvs ''cached_at'' = Some (JStr s) \<and> fromisoformat lib s = Some dt \<and>
            cached_at res = Some dt))) \<and>
   (fromisoformat lib (isoformat lib t0) = Some (Naive t0) \<and>
    ttl_in_range (cache svc) \<and>
    now_lookup env - t0 \<le> expiry_seconds (cache svc) * 1000000 \<longrightarrow>
      fst (fetch_data lib svc env endpoint ps cache_key
             (set_entry lib t0 Written cache_key payload w)) =
        Inr \<lparr> data = payload, cached = True, cached_at = Some (Naive t0) \<rparr>)"
proof (intro conjI impI)
  assume h: "get lib (cache svc) (now_lookup env) cache_key w = (Inr (Some e), w1)"
  from get_hit_form[OF h] have w1: "w1 = w" by simp
  show "fetch_data lib svc env endpoint ps cache_key w = (Inr e, ps, w)"
    using fetch_data_hit[OF h] w1 by simp
  then show "sent (snd (snd (fetch_data lib svc env endpoint ps cache_key w))) = sent w"
    by simp
  show "cached e" using get_hit_form[OF h] by auto
  show "\<exists>kvs s v d.
         map_of (files w) (get_cache_file_path cache_key) = Some (Document (JObj kvs)) \<and>
         map_of kvs ''cached_at'' = Some (JStr s) \<and> fromisoformat lib s = Some d \<and>
         map_of kvs ''data'' = Some v \<and> data e = v \<and> cached_at e = Some d"
    using get_hit_form[OF h] by auto
next
  assume h: "get lib (cache svc) (now_lookup env) cache_key w = (Inr None, w1) \<and>
    transport env (fst (build_url svc endpoint ps)) = Response r \<and>
    status_code r = 200 \<and> json_of r = Inr d"
  then show f: "fetch_data lib svc env endpoint ps cache_key w =
        (Inr \<lparr> data = d, cached = False, cached_at = None \<rparr>,
         snd (build_url svc endpoint ps),
         set_entry lib (now_store env) (disk env) cache_key d
           (w1\<lparr>sent := sent w1 @ [fst (build_url svc endpoint ps)]\<rparr>))"
    by (simp add: fetch_data_success)
  assume "disk env = Written"
  then show "map_of (files (snd (snd (fetch_data lib svc env endpoint ps cache_key w))))
           (get_cache_file_path cache_key) =
         Some (Document (JObj [(''data'', d),
                               (''cached_at'', JStr (isoformat lib (now_store env)))]))"
    by (simp add: f set_entry_written_lookup)
next
  assume h: "fetch_data lib svc env endpoint ps cache_key w = (Inr res, ps', w')"
  { assume "\<not> cached res"
    then show "cached_at res = None"
      using fetch_data_result_form[OF h] by (auto dest: get_hit_form) }
  { assume "cached res"
    then have "get lib (cache svc) (now_lookup env) cache_key w = (Inr (Some res), w')"
      using fetch_data_result_form[OF h] by auto
    from get_hit_form[OF this]
    show "\<exists>kvs s dt.
            map_of (files w) (get_cache_file_path cache_key) = Some (Document (JObj kvs)) \<and>
            map_of kvs ''cached_at'' = Some (JStr s) \<and> fromisoformat lib s = Some dt \<and>
            cached_at res = Some dt"
      by auto }
next
  assume h: "fromisoformat lib (isoformat lib t0) = Some (Naive t0) \<and>
    ttl_in_range (cache svc) \<and>
    now_lookup env - t0 \<le> expiry_seconds (cache svc) * 1000000"
  let ?w = "set_entry lib t0 Written cache_key payload w"
  have "get lib (cache svc) (now_lookup env) cache_key ?w =
      (Inr (Some \<lparr> data = payload, cached = True, cached_at = Some (Naive t0) \<rparr>), ?w)"
    by (rule get_fresh[where kvs = "[(''data'', payload), (''cached_at'', JStr (isoformat lib t0))]"
                         and s = "isoformat lib t0"
                         and ttl = "expiry_seconds (cache svc) * 1000000"])
       (use h in \<open>simp_all add: set_entry_written_lookup timedelta_in_range\<close>)
  from fetch_data_hit[OF this]
  show "fst (fetch_data lib svc env endpoint ps cache_key ?w) =
        Inr \<lparr> data = payload, cached = True, cached_at = Some (Naive t0) \<rparr>"
    by simp
qed

theorem fetch_data_hit_and_miss_witness:
  "fetch_data sample_lib sample_service (sample_env 60000000 (Httpx_NetworkError ''down''))
     ''weather'' [(''q'', PStr ''London'')] ''weather_London'' stored_world =
     (Inr \<lparr> data = JNum 7, cached = True, cached_at = Some (Naive 0) \<rparr>,
      [(''q'', PStr ''London'')], stored_world) \<and>
   fst (fetch_data sample_lib sample_service
          (sample_env 60000000
             (Response \<lparr> status_code = 200, text_of = ''9'', json_of = Inr (JNum 9) \<rparr>))
          ''weather'' [(''q'', PStr ''London'')] ''weather_London'' empty_world) =
     Inr \<lparr> data = JNum 9, cached = False, cached_at = None \<rparr> \<and>
   fst (fetch_data sample_lib sample_service (sample_env 300000000 (Httpx_NetworkError ''down''))
          ''weather'' [(''q'', PStr ''London'')] ''weather_London''
          (set_entry sample_lib 60000000 Written ''weather_London'' (JNum 9) empty_world)) =
     Inr \<lparr> data = JNum 9, cached = True, cached_at = Some (Naive 60000000) \<rparr>"
proof -
  have kept: "fromisoformat sample_lib (isoformat sample_lib 60000000) = Some (Naive 60000000) \<and>
     ttl_in_range (cache sample_service) \<and>
     now_lookup (sample_env 300000000 (Httpx_NetworkError ''down'')) - 60000000 \<le>
       expiry_seconds (cache sample_service) * 1000000"
    by (simp add: sample_lib_def ttl_in_range_def sample_service_def sample_env_def)
  have hit: "get sample_lib (cache sample_service)
               (now_lookup (sample_env 60000000 (Httpx_NetworkError ''down'')))
               ''weather_London'' stored_world =
     (Inr (Some \<lparr> data = JNum 7, cached = True, cached_at = Some (Naive 0) \<rparr>), stored_world)"
    by (simp add: sample_env_def sample_get_stored)
  have miss: "get sample_lib (cache sample_service)
               (now_lookup (sample_env 60000000
             (Response \<lparr> status_code = 200, text_of = ''9'', json_of = Inr (JNum 9) \<rparr>)))
               ''weather_London'' empty_world = (Inr None, empty_world) \<and>
     transport (sample_env 60000000
             (Response \<lparr> status_code = 200, text_of = ''9'', json_of = Inr (JNum 9) \<rparr>))
        (fst (build_url sample_service ''weather'' [(''q'', PStr ''London'')])) =
       Response \<lparr> status_code = 200, text_of = ''9'', json_of = Inr (JNum 9) \<rparr> \<and>
     status_code \<lparr> status_code = 200, text_of = ''9'', json_of = Inr (JNum 9) \<rparr> = 200 \<and>
     json_of \<lparr> status_code = 200, text_of = ''9'', json_of = Inr (JNum 9) \<rparr> = Inr (JNum 9)"
    by (simp add: sample_env_def sample_get_empty)
  show ?thesis
    using fetch_data_hit_and_miss
      [where lib = sample_lib and svc = sample_service
         and env = "sample_env 60000000 (Httpx_NetworkError ''down'')"
         and cache_key = "''weather_London''" and w = stored_world and ?w1.0 = stored_world
         and e = "\<lparr> data = JNum 7, cached = True, cached_at = Some (Naive 0) \<rparr>"
         and endpoint = "''weather''" and ps = "[(''q'', PStr ''London'')]",
       THEN conjunct1, rule_format, OF hit]
      fetch_data_hit_and_miss
      [where lib = sample_lib and svc = sample_service
         and env = "sample_env 60000000
             (Response \<lparr> status_code = 200, text_of = ''9'', json_of = Inr (JNum 9) \<rparr>)"
         and cache_key = "''weather_London''" and w = empty_world and ?w1.0 = empty_world
         and r = "\<lparr> status_code = 200, text_of = ''9'', json_of = Inr (JNum 9) \<rparr>"
         and d = "JNum 9"
         and endpoint = "''weather''" and ps = "[(''q'', PStr ''London'')]",
       THEN conjunct2, THEN conjunct1, rule_format, OF miss]
      fetch_data_hit_and_miss
      [where lib = sample_lib and svc = sample_service
         and env = "sample_env 300000000 (Httpx_NetworkError ''down'')"
         and ?t0.0 = 60000000 and cache_key = "''weather_London''" and payload = "JNum 9"
         and w = empty_world
         and endpoint = "''weather''" and ps = "[(''q'', PStr ''London'')]",
       THEN conjunct2, THEN conjunct2, THEN conjunct2, rule_format, OF kept]
    by simp
qed






text \<open>
  C9: the comparison with the time to live is strict. For a readable entry
  with a timestamp and a payload, and a time to live that \<^verbatim>\<open>timedelta\<close>
  accepts: at an age equal to the time to live, and at every age up to it,
  \<^verbatim>\<open>get\<close> returns the entry as a hit and leaves the file; at a greater age
  \<^verbatim>\<open>get\<close> removes the file and returns \<^verbatim>\<open>None\<close>; and
  \<^verbatim>\<open>clear_expired\<close> keeps the file up to that age and removes it above.
\<close>

theorem ttl_comparison_is_strict:
  assumes "map_of (files w) (get_cache_file_path key) = Some (Document (JObj kvs))"
    and "map_of kvs ''cached_at'' = Some (JStr s)"
    and "fromisoformat lib s = Some (Naive t)"
    and "map_of kvs ''data'' = Some v"
    and "ttl_in_range cm"
  shows
    "(now - t = expiry_seconds cm * 1000000 \<longrightarrow>
        get lib cm now key w =
          (Inr (Some \<lparr> data = v, cached = True, cached_at = Some (Naive t) \<rparr>), w)) \<and>
     (now - t \<le> expiry_seconds cm * 1000000 \<longrightarrow>
        get lib cm now key w =
          (Inr (Some \<lparr> data = v, cached = True, cached_at = Some (Naive t) \<rparr>), w)) \<and>
     (now - t > expiry_seconds cm * 1000000 \<and> get_cache_file_path key \<notin> undeletable w \<longrightarrow>
        get lib cm now key w =
          (Inr None, w\<lparr>files := AList.delete (get_cache_file_path key) (files w)\<rparr>)) \<and>
     (undeletable w \<inter> set (glob_json w) = {} \<longrightarrow>
        (now - t \<le> expiry_seconds cm * 1000000 \<longrightarrow>
           map_of (files (snd (clear_expired lib cm now w))) (get_cache_file_path key) =
             Some (Document (JObj kvs))) \<and>
        (now - t > expiry_seconds cm * 1000000 \<longrightarrow>
           map_of (files (snd (clear_expired lib cm now w))) (get_cache_file_path key) = None))"
proof -
  let ?p = "get_cache_file_path key"
  let ?ttl = "expiry_seconds cm * 1000000"
  note td = timedelta_in_range[OF assms(5)]
  have fresh: "now - t \<le> ?ttl \<Longrightarrow> get lib cm now key w =
      (Inr (Some \<lparr> data = v, cached = True, cached_at = Some (Naive t) \<rparr>), w)"
    by (rule get_fresh[OF assms(1,2,3,4) td])
  have old: "now - t > ?ttl \<Longrightarrow> ?p \<notin> undeletable w \<Longrightarrow> get lib cm now key w =
      (Inr None, w\<lparr>files := AList.delete ?p (files w)\<rparr>)"
    by (rule get_expired[OF assms(1,2,3) td])
  have st: "stale lib cm now (files w) ?p = (now - t > ?ttl)"
    by (rule stale_valid_entry[OF assms(1,2,3,5)])
  have listed: "?p \<in> set (glob_json w)"
    using assms(1) by (simp add: glob_json_path in_keys_map_of)
  have sweep: "undeletable w \<inter> set (glob_json w) = {} \<Longrightarrow>
      (now - t \<le> ?ttl \<longrightarrow>
         map_of (files (snd (clear_expired lib cm now w))) ?p = Some (Document (JObj kvs))) \<and>
      (now - t > ?ttl \<longrightarrow> map_of (files (snd (clear_expired lib cm now w))) ?p = None)"
  proof -
    assume "undeletable w \<inter> set (glob_json w) = {}"
    then have ok: "\<forall>n \<in> set (glob_json w). stale lib cm now (files w) n \<longrightarrow> n \<notin> undeletable w"
      by auto
    show ?thesis
      using clear_expired_sweeps[OF ok] clear_expired_removes[OF ok listed] st assms(1)
      by auto
  qed
  show ?thesis
    using fresh old sweep by simp
qed

theorem ttl_comparison_is_strict_witness:
  "ttl_in_range (cache sample_service) \<and>
   get sample_lib (cache sample_service) 300000000 ''weather_London'' stored_world =
     (Inr (Some \<lparr> data = JNum 7, cached = True, cached_at = Some (Naive 0) \<rparr>), stored_world) \<and>
   get sample_lib (cache sample_service) 300000001 ''weather_London'' stored_world =
     (Inr None, empty_world) \<and>
   map_of (files (snd (clear_expired sample_lib (cache sample_service) 300000000 stored_world)))
     ''weather_London.json'' =
     Some (Document (JObj [(''data'', JNum 7), (''cached_at'', JStr ''1970-01-01T00:00:00'')])) \<and>
   map_of (files (snd (clear_expired sample_lib (cache sample_service) 300000001 stored_world)))
     ''weather_London.json'' = None"
proof -
  let ?kvs = "[(''data'', JNum 7), (''cached_at'', JStr ''1970-01-01T00:00:00'')]"
  have p: "get_cache_file_path ''weather_London'' = ''weather_London.json''"
    by (simp add: get_cache_file_path_def safe_key_def replace_char_def)
  have a: "map_of (files stored_world) (get_cache_file_path ''weather_London'') =
             Some (Document (JObj ?kvs))"
    by (simp add: p stored_world_def)
  have b: "map_of ?kvs ''cached_at'' = Some (JStr ''1970-01-01T00:00:00'')" by simp
  have c: "fromisoformat sample_lib ''1970-01-01T00:00:00'' = Some (Naive 0)"
    by (simp add: sample_lib_def)
  have d: "map_of ?kvs ''data'' = Some (JNum 7)" by simp
  have e: "ttl_in_range (cache sample_service)"
    by (simp add: ttl_in_range_def sample_service_def)
  have x: "expiry_seconds (cache sample_service) = 300"
    by (simp add: sample_service_def)
  have u: "undeletable stored_world \<inter> set (glob_json stored_world) = {}"
    "get_cache_file_path ''weather_London'' \<notin> undeletable stored_world"
    by (simp_all add: stored_world_def)
  have del: "stored_world\<lparr>files := AList.delete ''weather_London.json'' (files stored_world)\<rparr> =
             empty_world"
    by (simp add: stored_world_def empty_world_def)
  show ?thesis
    using ttl_comparison_is_strict[OF a b c d e, of 300000000]
          ttl_comparison_is_strict[OF a b c d e, of 300000001] e u del
    by (simp add: x p)
qed

end
